theory Spec2Isabelle
  imports Main
begin

section \<open>Payments, wallet ledger, refunds and tutor subscriptions\<close>

text \<open>
  A shallow embedding of \<^verbatim>\<open>payments/models.py\<close> and \<^verbatim>\<open>payments/views.py\<close>.

  Money: every amount column is a \<^verbatim>\<open>DecimalField(max_digits=10, decimal_places=2)\<close>; an
  amount is modelled as the integer number of hundredths (pesewas), on which the
  comparisons, additions and subtractions of the source are exact. A posted amount is
  taken to have at most two decimals.

  Time: a datetime is the integer number of microseconds since the epoch, and
  \<^verbatim>\<open>timedelta(days=n)\<close> is \<open>n\<close> times the microseconds of a day. Every call of
  \<^verbatim>\<open>timezone.now()\<close> is an explicit argument of the function that makes it.

  Storage: the tables are the fields of the record \<open>db\<close>; a model instance held by the
  view is a record value, and \<^verbatim>\<open>save()\<close> writes it to its table. The columns
  \<^verbatim>\<open>created_at\<close>, \<^verbatim>\<open>updated_at\<close>, \<^verbatim>\<open>currency\<close>, the Paystack and mobile-money
  references, the plan feature columns and the resource and video links are read by no
  function below and are left out.
\<close>

subsection \<open>Data model\<close>

type_synonym money = int
type_synonym datetime = int
type_synonym user_id = nat
type_synonym payment_id = nat
type_synonym session_id = nat

definition timedelta_days :: "int \<Rightarrow> int" where
  "timedelta_days n = n * 86400000000"

datatype payment_type = Session | Subscription | Resource | Video | Package | Wallet_topup

datatype payment_status =
  Pending | Processing | Completed | Failed | Cancelled | Refunded | Partially_refunded

datatype json = JNull | JInt int | JStr string

text \<open>The payment intent of the gateway, as far as the handlers read it: its id and the
  \<^verbatim>\<open>payment_id\<close> entry of its metadata (absent, or the id of a payment).\<close>

record payment_intent =
  intent_id :: string
  meta_payment_id :: "payment_id option"

record payment =
  user :: user_id
  payment_type :: payment_type
  amount :: money
  payment_method :: string
  status :: payment_status
  session :: "session_id option"
  stripe_payment_intent_id :: string
  gateway_response :: "payment_intent option"
  description :: string
  metadata :: "(string \<rightharpoonup> json) option"
  completed_at :: "datetime option"

datatype subscription_status = Active | Expired | Subscription_cancelled | Suspended

record tutor_subscription =
  plan :: json
  start_date :: datetime
  end_date :: datetime
  amount_paid :: money
  sub_status :: subscription_status
  sub_payment :: "payment_id option"

datatype refund_status = Requested | Under_review | Approved | Rejected | Processed

record refund =
  reason :: string
  reason_detail :: string
  refund_amount :: money
  refund_status :: refund_status

record wallet =
  wallet_user :: user_id
  balance :: money
  is_active :: bool

datatype transaction_type = Credit | Debit

record wallet_transaction =
  txn_wallet :: user_id
  transaction_type :: transaction_type
  txn_amount :: money
  txn_description :: string
  balance_after :: money

datatype session_status =
  Scheduled | Confirmed | In_progress | Session_completed | Session_cancelled | No_show
  | Rescheduled

record tutoring_session =
  student :: user_id
  title :: string
  total_amount :: money
  session_status :: session_status

record tutor_profile =
  subscription_active :: bool
  subscription_expiry :: "datetime option"

text \<open>
  The tables. A one-to-one relation is keyed by the row it belongs to: a wallet, a
  subscription and a tutor profile by their user, a refund by its payment. The
  \<^verbatim>\<open>WalletTransaction\<close> table is a list in insertion order.
\<close>

record db =
  payments :: "payment_id \<rightharpoonup> payment"
  subscriptions :: "user_id \<rightharpoonup> tutor_subscription"
  refunds :: "payment_id \<rightharpoonup> refund"
  wallets :: "user_id \<rightharpoonup> wallet"
  wallet_transactions :: "wallet_transaction list"
  sessions :: "session_id \<rightharpoonup> tutoring_session"
  tutor_profiles :: "user_id \<rightharpoonup> tutor_profile"

subsection \<open>Wallet\<close>

text \<open>\<^verbatim>\<open>Wallet.add_funds(self, amount, description, transaction_type)\<close>: the result is
  the returned boolean, the instance after the call and the database after the call.\<close>

definition add_funds ::
  "wallet \<Rightarrow> money \<Rightarrow> string \<Rightarrow> transaction_type \<Rightarrow> db \<Rightarrow> bool \<times> wallet \<times> db" where
  "add_funds self amt descr ttype d =
     (if amt > 0 then
        let self' = self\<lparr>balance := balance self + amt\<rparr>;
            d1 = d\<lparr>wallets := (wallets d)(wallet_user self' \<mapsto> self')\<rparr>;
            d2 = d1\<lparr>wallet_transactions := wallet_transactions d1 @
                   [\<lparr>txn_wallet = wallet_user self', transaction_type = ttype,
                     txn_amount = amt, txn_description = descr,
                     balance_after = balance self'\<rparr>]\<rparr>
        in (True, self', d2)
      else (False, self, d))"

text \<open>\<^verbatim>\<open>Wallet.deduct_funds(self, amount, description)\<close>.\<close>

definition deduct_funds :: "wallet \<Rightarrow> money \<Rightarrow> string \<Rightarrow> db \<Rightarrow> bool \<times> wallet \<times> db" where
  "deduct_funds self amt descr d =
     (if balance self \<ge> amt \<and> amt > 0 then
        let self' = self\<lparr>balance := balance self - amt\<rparr>;
            d1 = d\<lparr>wallets := (wallets d)(wallet_user self' \<mapsto> self')\<rparr>;
            d2 = d1\<lparr>wallet_transactions := wallet_transactions d1 @
                   [\<lparr>txn_wallet = wallet_user self', transaction_type = Debit,
                     txn_amount = amt, txn_description = descr,
                     balance_after = balance self'\<rparr>]\<rparr>
        in (True, self', d2)
      else (False, self, d))"

text \<open>\<^verbatim>\<open>Wallet.has_sufficient_balance(self, amount)\<close>: reads the instance only.\<close>

definition has_sufficient_balance :: "wallet \<Rightarrow> money \<Rightarrow> bool" where
  "has_sufficient_balance self amt = (balance self \<ge> amt)"

text \<open>A sequence of credit and debit calls on one wallet instance, for statements about
  every such sequence. \<open>Add_funds\<close> is the call with the default transaction type.\<close>

datatype wallet_op = Add_funds money string | Deduct_funds money string

fun wallet_step :: "wallet \<times> db \<Rightarrow> wallet_op \<Rightarrow> wallet \<times> db" where
  "wallet_step (w, d) (Add_funds amt descr) = snd (add_funds w amt descr Credit d)"
| "wallet_step (w, d) (Deduct_funds amt descr) = snd (deduct_funds w amt descr d)"

definition wallet_run :: "wallet \<times> db \<Rightarrow> wallet_op list \<Rightarrow> wallet \<times> db" where
  "wallet_run s ops = foldl wallet_step s ops"

definition empty_db :: db where
  "empty_db = \<lparr>payments = Map.empty, subscriptions = Map.empty, refunds = Map.empty,
     wallets = Map.empty, wallet_transactions = [], sessions = Map.empty,
     tutor_profiles = Map.empty\<rparr>"

subsection \<open>Requests, responses and the gateway\<close>

text \<open>
  Exceptions that leave a view are values. \<open>Http404\<close> is the failure of
  \<^verbatim>\<open>get_object_or_404\<close>; \<open>IntegrityError\<close> is the database refusing a row (a
  primary key that exists, a null in a column that is not nullable); \<open>DoesNotExist\<close> is
  a missing related row; \<open>AttributeError\<close> and \<open>TypeError\<close> are Python's own.
\<close>

datatype error = Http404 | IntegrityError | DoesNotExist | AttributeError | TypeError

text \<open>A response is a redirect to a named route, a JSON or plain response with its
  status code, or an exception that reached the framework. A view returns its response,
  the texts it handed to the messages framework, and the database it leaves.\<close>

datatype response = Redirect string | JsonResponse nat | HttpResponse nat | Raise error

type_synonym result = "response \<times> string list \<times> db"

text \<open>What \<^verbatim>\<open>stripe.PaymentIntent.create\<close> does is an input: it returns an intent
  with an id, or raises \<^verbatim>\<open>StripeError\<close>.\<close>

datatype stripe_result = Stripe_intent string | StripeError

subsection \<open>Payment rows\<close>

text \<open>
  \<^verbatim>\<open>Payment.objects.create(...)\<close> with the keyword arguments the views pass; every
  other column takes its default, so \<open>status\<close> is \<open>Pending\<close>. The primary key is
  \<^verbatim>\<open>uuid.uuid4()\<close>, an input here; inserting a key that exists is an
  \<open>IntegrityError\<close>. The instance the view goes on with is the key and the row.
\<close>

definition Payment_objects_create ::
  "db \<Rightarrow> payment_id \<Rightarrow> user_id \<Rightarrow> payment_type \<Rightarrow> money \<Rightarrow> string \<Rightarrow> session_id option
     \<Rightarrow> string \<Rightarrow> (string \<rightharpoonup> json) option \<Rightarrow> error + (payment \<times> db)" where
  "Payment_objects_create d new_id u ptype amt meth sess descr meta =
     (case payments d new_id of
        Some _ \<Rightarrow> Inl IntegrityError
      | None \<Rightarrow>
          let p = \<lparr>user = u, payment_type = ptype, amount = amt, payment_method = meth,
                   status = Pending, session = sess, stripe_payment_intent_id = [],
                   gateway_response = None, description = descr, metadata = meta,
                   completed_at = None\<rparr>
          in Inr (p, d\<lparr>payments := (payments d)(new_id \<mapsto> p)\<rparr>))"

text \<open>\<^verbatim>\<open>payment.save()\<close> writes the instance to its row.\<close>

definition save_payment :: "db \<Rightarrow> payment_id \<Rightarrow> payment \<Rightarrow> db" where
  "save_payment d pid p = d\<lparr>payments := (payments d)(pid \<mapsto> p)\<rparr>"

text \<open>\<^verbatim>\<open>payment.delete()\<close> removes the row and follows the foreign keys to it:
  \<^verbatim>\<open>Refund.payment\<close> is \<^verbatim>\<open>on_delete=CASCADE\<close>, \<^verbatim>\<open>TutorSubscription.payment\<close> is
  \<^verbatim>\<open>on_delete=SET_NULL\<close>.\<close>

definition delete_payment :: "db \<Rightarrow> payment_id \<Rightarrow> db" where
  "delete_payment d pid =
     d\<lparr>payments := (payments d)(pid := None),
       refunds := (refunds d)(pid := None),
       subscriptions := (\<lambda>u. map_option
          (\<lambda>s. if sub_payment s = Some pid then s\<lparr>sub_payment := None\<rparr> else s)
          (subscriptions d u))\<rparr>"

text \<open>\<^verbatim>\<open>payment.session\<close>: the related session, if the link is set.\<close>

definition payment_session :: "db \<Rightarrow> payment \<Rightarrow> tutoring_session option" where
  "payment_session d p = (case session p of None \<Rightarrow> None | Some sid \<Rightarrow> sessions d sid)"

text \<open>\<^verbatim>\<open>payment.session.status = 'confirmed'; payment.session.save()\<close>.\<close>

definition confirm_session :: "db \<Rightarrow> session_id \<Rightarrow> tutoring_session \<Rightarrow> db" where
  "confirm_session d sid s =
     d\<lparr>sessions := (sessions d)(sid \<mapsto> s\<lparr>session_status := Confirmed\<rparr>)\<rparr>"

subsection \<open>PayForSessionView\<close>

definition process_stripe_payment :: "db \<Rightarrow> payment_id \<Rightarrow> payment \<Rightarrow> stripe_result \<Rightarrow> result" where
  "process_stripe_payment d pid p stripe =
     (case stripe of
        Stripe_intent iid \<Rightarrow>
          (JsonResponse 200, [], save_payment d pid (p\<lparr>stripe_payment_intent_id := iid\<rparr>))
      | StripeError \<Rightarrow>
          (JsonResponse 400, [], save_payment d pid (p\<lparr>status := Failed\<rparr>)))"

text \<open>
  \<^verbatim>\<open>process_wallet_payment\<close>. Inside the \<^verbatim>\<open>try\<close>, \<^verbatim>\<open>request.user.wallet\<close> raises when
  the user has no wallet, and the description \<^verbatim>\<open>f'... {payment.session.title}'\<close> raises
  when the payment has no session; \<^verbatim>\<open>except Exception\<close> turns both into a failed
  payment. \<open>now\<close> is the \<^verbatim>\<open>timezone.now()\<close> of the completion stamp.
\<close>

definition process_wallet_payment ::
  "db \<Rightarrow> user_id \<Rightarrow> payment_id \<Rightarrow> payment \<Rightarrow> datetime \<Rightarrow> result" where
  "process_wallet_payment d u pid p now =
     (let raised = (Redirect ''payments:pay_session'', [''Payment failed. Please try again.''],
                    save_payment d pid (p\<lparr>status := Failed\<rparr>))
      in case wallets d u of
           None \<Rightarrow> raised
         | Some w \<Rightarrow>
             if has_sufficient_balance w (amount p) then
               (case session p of
                  None \<Rightarrow> raised
                | Some sid \<Rightarrow>
                    (case sessions d sid of
                       None \<Rightarrow> raised
                     | Some s \<Rightarrow>
                         (case deduct_funds w (amount p) (''Payment for session: '' @ title s) d of
                            (ok, w', d1) \<Rightarrow>
                              if ok then
                                let p' = p\<lparr>status := Completed, completed_at := Some now\<rparr>;
                                    d2 = save_payment d1 pid p';
                                    d3 = confirm_session d2 sid s
                                in (Redirect ''tutoring:session_detail'', [''Payment successful!''], d3)
                              else
                                (Redirect ''payments:pay_session'', [''Insufficient wallet balance.''],
                                 save_payment d1 pid (p\<lparr>status := Failed\<rparr>)))))
             else
               (Redirect ''payments:pay_session'', [''Insufficient wallet balance.''],
                save_payment d pid (p\<lparr>status := Failed\<rparr>)))"

text \<open>\<^verbatim>\<open>process_mobile_money_payment\<close>; \<open>phone\<close> is
  \<^verbatim>\<open>request.POST.get('phone_number')\<close>.\<close>

definition process_mobile_money_payment ::
  "db \<Rightarrow> payment_id \<Rightarrow> payment \<Rightarrow> string option \<Rightarrow> result" where
  "process_mobile_money_payment d pid p phone =
     (let v = (case phone of None \<Rightarrow> JNull | Some n \<Rightarrow> JStr n);
          p' = p\<lparr>status := Pending, metadata := Some [''phone_number'' \<mapsto> v]\<rparr>
      in (Redirect ''payments:payment_list'',
          [''Mobile money payment initiated. You will receive a prompt shortly.''],
          save_payment d pid p'))"

text \<open>\<^verbatim>\<open>PayForSessionView.post(request, session_id)\<close>: \<open>u\<close> is \<^verbatim>\<open>request.user\<close>,
  \<open>meth\<close> the posted payment method (\<^verbatim>\<open>'stripe'\<close> when none is posted).\<close>

definition pay_for_session_post ::
  "db \<Rightarrow> user_id \<Rightarrow> session_id \<Rightarrow> string \<Rightarrow> string option \<Rightarrow> payment_id \<Rightarrow> stripe_result
     \<Rightarrow> datetime \<Rightarrow> result" where
  "pay_for_session_post d u sid meth phone new_id stripe now =
     (case sessions d sid of
        None \<Rightarrow> (Raise Http404, [], d)
      | Some s \<Rightarrow>
          (case Payment_objects_create d new_id u Session (total_amount s) meth (Some sid)
                  (''Payment for session: '' @ title s) None of
             Inl e \<Rightarrow> (Raise e, [], d)
           | Inr (p, d1) \<Rightarrow>
               if meth = ''stripe'' then process_stripe_payment d1 new_id p stripe
               else if meth = ''wallet'' then process_wallet_payment d1 u new_id p now
               else if meth \<in> set [''mtn_momo'', ''vodafone_cash'']
                 then process_mobile_money_payment d1 new_id p phone
               else (Redirect ''payments:pay_session'', [''Invalid payment method.''], d1)))"

subsection \<open>SubscriptionView\<close>

text \<open>The table \<^verbatim>\<open>plan_prices\<close>: price (50, 120 and 200 cedis, in hundredths) and
  months of each plan.\<close>

definition plan_prices :: "string \<rightharpoonup> money \<times> int" where
  "plan_prices =
     [''basic'' \<mapsto> (5000, 1), ''standard'' \<mapsto> (12000, 3), ''premium'' \<mapsto> (20000, 6)]"

text \<open>\<^verbatim>\<open>plan.title()\<close> on the keys of \<open>plan_prices\<close>, the only strings it is
  applied to.\<close>

definition plan_title :: "string \<Rightarrow> string" where
  "plan_title pl =
     (if pl = ''basic'' then ''Basic'' else if pl = ''standard'' then ''Standard''
      else if pl = ''premium'' then ''Premium'' else pl)"

text \<open>The part of \<^verbatim>\<open>SubscriptionView.post\<close> after the payment row is created: the
  charge intent, and the handling of a gateway error.\<close>

definition subscription_charge ::
  "db \<Rightarrow> payment_id \<Rightarrow> payment \<Rightarrow> string \<Rightarrow> stripe_result \<Rightarrow> result" where
  "subscription_charge d pid p meth stripe =
     (if meth = ''stripe'' then
        (case stripe of
           Stripe_intent iid \<Rightarrow> (JsonResponse 200, [], d)
         | StripeError \<Rightarrow> (JsonResponse 400, [], delete_payment d pid))
      else (Redirect ''payments:payment_list'', [], d))"

text \<open>\<^verbatim>\<open>SubscriptionView.post(request)\<close>: \<open>is_tutor\<close> is
  \<^verbatim>\<open>request.user.is_tutor\<close>, \<open>pl\<close> the posted plan, if any.\<close>

definition subscription_post ::
  "db \<Rightarrow> user_id \<Rightarrow> bool \<Rightarrow> string option \<Rightarrow> string \<Rightarrow> payment_id \<Rightarrow> stripe_result
     \<Rightarrow> result" where
  "subscription_post d u is_tutor pl meth new_id stripe =
     (if \<not> is_tutor then
        (Redirect ''accounts:dashboard'', [''Only tutors can subscribe to plans.''], d)
      else
        (case (case pl of None \<Rightarrow> None | Some name \<Rightarrow>
                 map_option (\<lambda>row. (name, row)) (plan_prices name)) of
           None \<Rightarrow> (Redirect ''payments:subscription'', [''Invalid subscription plan.''], d)
         | Some (name, price, months) \<Rightarrow>
             (case Payment_objects_create d new_id u Subscription price meth None
                     (''Tutor subscription - '' @ plan_title name @ '' plan'')
                     (Some [''plan'' \<mapsto> JStr name, ''months'' \<mapsto> JInt months]) of
                Inl e \<Rightarrow> (Raise e, [], d)
              | Inr (p, d1) \<Rightarrow> subscription_charge d1 new_id p meth stripe)))"

subsection \<open>WalletView\<close>

text \<open>The part of \<^verbatim>\<open>WalletView.post\<close> after the payment row is created.\<close>

definition wallet_charge :: "db \<Rightarrow> payment_id \<Rightarrow> payment \<Rightarrow> stripe_result \<Rightarrow> result" where
  "wallet_charge d pid p stripe =
     (if payment_method p = ''stripe'' then
        (case stripe of
           Stripe_intent iid \<Rightarrow> (JsonResponse 200, [], d)
         | StripeError \<Rightarrow> (JsonResponse 400, [], delete_payment d pid))
      else (Redirect ''payments:wallet'', [], d))"

text \<open>\<^verbatim>\<open>WalletView.post(request)\<close>: \<open>action\<close> is the posted action, if any, and
  \<open>amt\<close> the value of \<^verbatim>\<open>Decimal(request.POST.get('amount', '0'))\<close>, \<open>meth\<close> the
  posted payment method (\<^verbatim>\<open>'stripe'\<close> when none is posted). The description of the row
  ends with the decimal text of the amount, which is left out.\<close>

definition wallet_post ::
  "db \<Rightarrow> user_id \<Rightarrow> string option \<Rightarrow> money \<Rightarrow> string \<Rightarrow> payment_id \<Rightarrow> stripe_result
     \<Rightarrow> result" where
  "wallet_post d u action amt meth new_id stripe =
     (if action = Some ''topup'' then
        if amt > 0 then
          (case Payment_objects_create d new_id u Wallet_topup amt meth None
                  ''Wallet top-up'' None of
             Inl e \<Rightarrow> (Raise e, [], d)
           | Inr (p, d1) \<Rightarrow> wallet_charge d1 new_id p stripe)
        else (Redirect ''payments:wallet'', [], d)
      else (Redirect ''payments:wallet'', [], d))"

subsection \<open>RequestRefundView\<close>

text \<open>
  \<^verbatim>\<open>RequestRefundView.form_valid(form)\<close>, which runs once the form has validated:
  \<open>rsn\<close> and \<open>detail\<close> are its reason fields and \<open>amt\<close> its optional amount.
  \<^verbatim>\<open>not form.instance.amount\<close> holds for a blank amount and for zero. The two refusals
  are told apart by the text of their message.
\<close>

definition NotEligible :: string where
  "NotEligible = ''Only completed payments can be refunded.''"

definition AlreadyRequested :: string where
  "AlreadyRequested = ''Refund request already exists for this payment.''"

definition request_refund ::
  "db \<Rightarrow> user_id \<Rightarrow> payment_id \<Rightarrow> string \<Rightarrow> string \<Rightarrow> money option \<Rightarrow> result" where
  "request_refund d u pid rsn detail amt =
     (case payments d pid of
        None \<Rightarrow> (Raise Http404, [], d)
      | Some p \<Rightarrow>
          if user p \<noteq> u then (Raise Http404, [], d)
          else if status p \<noteq> Completed then
            (Redirect ''payments:payment_list'', [NotEligible], d)
          else if refunds d pid \<noteq> None then
            (Redirect ''payments:payment_list'', [AlreadyRequested], d)
          else
            let a = (case amt of None \<Rightarrow> amount p
                     | Some x \<Rightarrow> if x = 0 then amount p else x);
                r = \<lparr>reason = rsn, reason_detail = detail, refund_amount = a,
                     refund_status = Requested\<rparr>
            in (Redirect ''payments:payment_list'',
                [''Refund request submitted successfully.''],
                d\<lparr>refunds := (refunds d)(pid \<mapsto> r)\<rparr>))"

subsection \<open>StripeWebhookView\<close>

text \<open>
  \<^verbatim>\<open>create_tutor_subscription(payment)\<close>. \<open>t_start\<close> is the \<^verbatim>\<open>timezone.now()\<close> of
  \<^verbatim>\<open>start_date\<close>, \<open>t_renew\<close> the one inside \<^verbatim>\<open>max(...)\<close>. The function raises
  \<open>AttributeError\<close> when the metadata is null, \<open>TypeError\<close> when \<^verbatim>\<open>30 * months\<close> is
  no number of days, \<open>IntegrityError\<close> when the plan saved is null, and
  \<open>DoesNotExist\<close> when the user has no tutor profile; what was saved before the
  exception stays saved. The result is the exception, if any, and the database.
\<close>

definition create_tutor_subscription ::
  "db \<Rightarrow> payment_id \<Rightarrow> payment \<Rightarrow> datetime \<Rightarrow> datetime \<Rightarrow> error option \<times> db" where
  "create_tutor_subscription d pid p t_start t_renew =
     (case metadata p of
        None \<Rightarrow> (Some AttributeError, d)
      | Some m \<Rightarrow>
          (case (case m ''months'' of None \<Rightarrow> JInt 1 | Some v \<Rightarrow> v) of
             JInt months \<Rightarrow>
               (case (case m ''plan'' of None \<Rightarrow> JNull | Some v \<Rightarrow> v) of
                  JNull \<Rightarrow> (Some IntegrityError, d)
                | pl \<Rightarrow>
                    let sub = (case subscriptions d (user p) of
                                 None \<Rightarrow>
                                   \<lparr>plan = pl, start_date = t_start,
                                     end_date = t_start + timedelta_days (30 * months),
                                     amount_paid = amount p, sub_status = Active,
                                     sub_payment = Some pid\<rparr>
                               | Some s \<Rightarrow>
                                   s\<lparr>plan := pl,
                                     end_date := max (end_date s) t_renew
                                                 + timedelta_days (30 * months),
                                     amount_paid := amount_paid s + amount p,
                                     sub_status := Active\<rparr>);
                        d1 = d\<lparr>subscriptions := (subscriptions d)(user p \<mapsto> sub)\<rparr>
                    in (case tutor_profiles d1 (user p) of
                          None \<Rightarrow> (Some DoesNotExist, d1)
                        | Some tp \<Rightarrow>
                            (None, d1\<lparr>tutor_profiles := (tutor_profiles d1)(user p \<mapsto>
                               tp\<lparr>subscription_active := True,
                                  subscription_expiry := Some (end_date sub)\<rparr>)\<rparr>)))
           | _ \<Rightarrow> (Some TypeError, d)))"

text \<open>\<^verbatim>\<open>Wallet.objects.get_or_create(user=...)\<close>: a new wallet has balance zero.\<close>

definition wallet_get_or_create :: "db \<Rightarrow> user_id \<Rightarrow> wallet \<times> db" where
  "wallet_get_or_create d u =
     (case wallets d u of
        Some w \<Rightarrow> (w, d)
      | None \<Rightarrow>
          let w = \<lparr>wallet_user = u, balance = 0, is_active = True\<rparr>
          in (w, d\<lparr>wallets := (wallets d)(u \<mapsto> w)\<rparr>))"

text \<open>
  \<^verbatim>\<open>handle_payment_success(payment_intent)\<close>. \<open>now\<close> is the \<^verbatim>\<open>timezone.now()\<close> of
  \<^verbatim>\<open>completed_at\<close>. \<^verbatim>\<open>Payment.DoesNotExist\<close> is caught: no payment id in the metadata,
  or an id that no row has, leaves the database as it is. Any other exception leaves the
  handler.
\<close>

definition handle_payment_success ::
  "db \<Rightarrow> payment_intent \<Rightarrow> datetime \<Rightarrow> datetime \<Rightarrow> datetime \<Rightarrow> error option \<times> db" where
  "handle_payment_success d intent now t_start t_renew =
     (case meta_payment_id intent of
        None \<Rightarrow> (None, d)
      | Some pid \<Rightarrow>
          (case payments d pid of
             None \<Rightarrow> (None, d)
           | Some p0 \<Rightarrow>
               let p = p0\<lparr>status := Completed, completed_at := Some now,
                         gateway_response := Some intent\<rparr>;
                   d1 = save_payment d pid p
               in if payment_type p = Session \<and> session p \<noteq> None then
                    (case session p of
                       None \<Rightarrow> (None, d1)
                     | Some sid \<Rightarrow>
                         (case sessions d1 sid of
                            None \<Rightarrow> (Some DoesNotExist, d1)
                          | Some s \<Rightarrow> (None, confirm_session d1 sid s)))
                  else if payment_type p = Subscription then
                    create_tutor_subscription d1 pid p t_start t_renew
                  else if payment_type p = Wallet_topup then
                    (case wallet_get_or_create d1 (user p) of
                       (w, d2) \<Rightarrow>
                         (case add_funds w (amount p) ''Wallet top-up via Stripe'' Credit d2 of
                            (ok, w', d3) \<Rightarrow> (None, d3)))
                  else (None, d1)))"

text \<open>\<^verbatim>\<open>handle_payment_failure(payment_intent)\<close>.\<close>

definition handle_payment_failure :: "db \<Rightarrow> payment_intent \<Rightarrow> error option \<times> db" where
  "handle_payment_failure d intent =
     (case meta_payment_id intent of
        None \<Rightarrow> (None, d)
      | Some pid \<Rightarrow>
          (case payments d pid of
             None \<Rightarrow> (None, d)
           | Some p0 \<Rightarrow>
               (None, save_payment d pid
                        (p0\<lparr>status := Failed, gateway_response := Some intent\<rparr>))))"

text \<open>
  \<^verbatim>\<open>StripeWebhookView.post(request)\<close>. The event is \<open>None\<close> when the payload does not
  parse or its signature does not verify; otherwise it is the event type and the payment
  intent it carries.
\<close>

definition stripe_webhook_post ::
  "db \<Rightarrow> (string \<times> payment_intent) option \<Rightarrow> datetime \<Rightarrow> datetime \<Rightarrow> datetime \<Rightarrow> result" where
  "stripe_webhook_post d event now t_start t_renew =
     (case event of
        None \<Rightarrow> (HttpResponse 400, [], d)
      | Some (etype, intent) \<Rightarrow>
          (case (if etype = ''payment_intent.succeeded''
                   then handle_payment_success d intent now t_start t_renew
                 else if etype = ''payment_intent.payment_failed''
                   then handle_payment_failure d intent
                 else (None, d)) of
             (Some e, d') \<Rightarrow> (Raise e, [], d')
           | (None, d') \<Rightarrow> (HttpResponse 200, [], d')))"

subsection \<open>The requests of the payments application\<close>

datatype request =
  Pay_for_session user_id session_id string "string option" payment_id stripe_result datetime
  | Subscribe user_id bool "string option" string payment_id stripe_result
  | Wallet_request user_id "string option" money string payment_id stripe_result
  | Request_refund user_id payment_id string string "money option"
  | Stripe_webhook "(string \<times> payment_intent) option" datetime datetime datetime

fun handle :: "db \<Rightarrow> request \<Rightarrow> result" where
  "handle d (Pay_for_session u sid meth phone new_id stripe now) =
     pay_for_session_post d u sid meth phone new_id stripe now"
| "handle d (Subscribe u is_tutor pl meth new_id stripe) =
     subscription_post d u is_tutor pl meth new_id stripe"
| "handle d (Wallet_request u action amt meth new_id stripe) =
     wallet_post d u action amt meth new_id stripe"
| "handle d (Request_refund u pid rsn detail amt) = request_refund d u pid rsn detail amt"
| "handle d (Stripe_webhook event now t_start t_renew) =
     stripe_webhook_post d event now t_start t_renew"

definition db_of :: "result \<Rightarrow> db" where
  "db_of r = snd (snd r)"


subsection \<open>Concrete states\<close>

text \<open>A wallet holding 100.00 cedis.\<close>

definition ex_wallet :: wallet where
  "ex_wallet = \<lparr>wallet_user = 7, balance = 10000, is_active = True\<rparr>"




text \<open>A completed session payment of 100.00 cedis by user 7; the same payment once refunded,
  with its refund.\<close>

definition ex_completed :: payment where
  "ex_completed = \<lparr>user = 7, payment_type = Session, amount = 10000,
     payment_method = ''stripe'', status = Completed, session = Some 3,
     stripe_payment_intent_id = ''pi_1'', gateway_response = None,
     description = ''Payment for session: Algebra'', metadata = None,
     completed_at = Some 50\<rparr>"

definition ex_completed_db :: db where
  "ex_completed_db = empty_db\<lparr>payments := [1 \<mapsto> ex_completed]\<rparr>"

definition ex_refund :: refund where
  "ex_refund = \<lparr>reason = ''other'', reason_detail = ''late'', refund_amount = 10000,
     refund_status = Requested\<rparr>"


text \<open>The payment row that \<open>subscription_post\<close> creates for the basic plan of tutor 9.\<close>

definition ex_basic :: payment where
  "ex_basic = \<lparr>user = 9, payment_type = Subscription, amount = 5000,
     payment_method = ''stripe'', status = Pending, session = None,
     stripe_payment_intent_id = [], gateway_response = None,
     description = ''Tutor subscription - Basic plan'',
     metadata = Some [''plan'' \<mapsto> JStr ''basic'', ''months'' \<mapsto> JInt 1],
     completed_at = None\<rparr>"

definition ex_basic_db :: db where
  "ex_basic_db = empty_db\<lparr>payments := [1 \<mapsto> ex_basic]\<rparr>"




text \<open>A session whose total amount is zero.\<close>

definition ex_free_session :: tutoring_session where
  "ex_free_session = \<lparr>student = 7, title = ''Algebra'', total_amount = 0,
     session_status = Scheduled\<rparr>"

definition ex_free_session_db :: db where
  "ex_free_session_db = empty_db\<lparr>sessions := [3 \<mapsto> ex_free_session]\<rparr>"

section \<open>Wallet service\<close>

lemma wallet_step_nonneg:
  "0 \<le> balance (fst s) \<Longrightarrow> 0 \<le> balance (fst (wallet_step s op))"
  by (cases s; cases op) (auto simp: add_funds_def deduct_funds_def Let_def)

lemma wallet_run_nonneg:
  "0 \<le> balance (fst s) \<Longrightarrow> 0 \<le> balance (fst (wallet_run s ops))"
proof (induction ops arbitrary: s)
  case Nil
  then show ?case by (simp add: wallet_run_def)
next
  case (Cons op ops)
  have "0 \<le> balance (fst (wallet_step s op))"
    using Cons.prems by (rule wallet_step_nonneg)
  then have "0 \<le> balance (fst (wallet_run (wallet_step s op) ops))"
    by (rule Cons.IH)
  then show ?case by (simp add: wallet_run_def)
qed

text \<open>
  Claim C2. For a wallet whose balance is not negative, \<open>deduct_funds\<close> with an amount
  that is not positive, or that exceeds the balance, returns \<open>False\<close> and leaves the
  instance and the database (the wallet row and the ledger) as they were; the balance
  after a debit is not negative; and after any sequence of credits and debits the balance
  is not negative.
\<close>

theorem deduct_funds_never_negative:
  assumes "0 \<le> balance w"
  shows "(amt \<le> 0 \<or> balance w < amt \<longrightarrow> deduct_funds w amt descr d = (False, w, d))
       \<and> 0 \<le> balance (fst (snd (deduct_funds w amt descr d)))
       \<and> 0 \<le> balance (fst (wallet_run (w, d) ops))"
  using assms wallet_run_nonneg[of "(w, d)" ops]
  by (auto simp: deduct_funds_def Let_def)

theorem deduct_funds_never_negative_witness:
  "0 \<le> balance ex_wallet
   \<and> deduct_funds ex_wallet 10001 ''session X'' empty_db = (False, ex_wallet, empty_db)
   \<and> balance (fst (wallet_run (ex_wallet, empty_db) [Deduct_funds 3000 ''session X''])) = 7000
   \<and> 0 \<le> balance (fst (wallet_run (ex_wallet, empty_db)
             [Deduct_funds 3000 ''session X'', Deduct_funds 8000 ''session Y'',
              Add_funds 500 ''gift'']))"
  using deduct_funds_never_negative[where w = ex_wallet and amt = 10001
      and descr = "''session X''" and d = empty_db
      and ops = "[Deduct_funds 3000 ''session X'', Deduct_funds 8000 ''session Y'',
                  Add_funds 500 ''gift'']"]
  by (simp add: ex_wallet_def wallet_run_def deduct_funds_def add_funds_def Let_def)

text \<open>
  Claim C7. For an amount that is positive and at most the balance, \<open>deduct_funds\<close>
  followed at once by \<open>add_funds\<close> of the same amount succeeds twice, brings the wallet,
  and so its balance, back to what it was, and appends exactly two ledger rows: the
  debit, then the credit, each with the balance after its own operation.
\<close>

theorem debit_then_credit_roundtrip:
  assumes "0 < amt" and "amt \<le> balance w"
  shows "case deduct_funds w amt dd d of (ok1, w1, d1) \<Rightarrow>
           (case add_funds w1 amt dc Credit d1 of (ok2, w2, d2) \<Rightarrow>
              ok1 \<and> ok2 \<and> balance w2 = balance w \<and> w2 = w
              \<and> wallets d2 (wallet_user w) = Some w
              \<and> wallet_transactions d2 = wallet_transactions d @
                   [\<lparr>txn_wallet = wallet_user w, transaction_type = Debit, txn_amount = amt,
                     txn_description = dd, balance_after = balance w - amt\<rparr>,
                    \<lparr>txn_wallet = wallet_user w, transaction_type = Credit, txn_amount = amt,
                     txn_description = dc, balance_after = balance w\<rparr>])"
  using assms by (simp add: deduct_funds_def add_funds_def Let_def)

theorem debit_then_credit_roundtrip_witness:
  "(0::int) < 3000 \<and> 3000 \<le> balance ex_wallet
   \<and> (case deduct_funds ex_wallet 3000 ''session X'' empty_db of
        (ok1, w1, d1) \<Rightarrow>
          (case add_funds w1 3000 ''undo'' Credit d1 of (ok2, w2, d2) \<Rightarrow>
             ok1 \<and> ok2 \<and> balance w2 = 10000
             \<and> map balance_after (wallet_transactions d2) = [7000, 10000]
             \<and> map transaction_type (wallet_transactions d2) = [Debit, Credit]))"
  using debit_then_credit_roundtrip[where amt = 3000 and w = ex_wallet
      and dd = "''session X''" and d = empty_db and dc = "''undo''"]
  by (simp add: ex_wallet_def empty_db_def split: prod.splits)

text \<open>
  Claim C10. \<open>has_sufficient_balance\<close> is true exactly when the balance is at least the
  amount; it is a function of the instance alone and returns nothing but the boolean, so
  it changes no state. On a wallet whose balance is not negative it is true for zero and
  for every negative amount, which \<open>add_funds\<close> and \<open>deduct_funds\<close> both refuse.
\<close>

theorem has_sufficient_balance_spec:
  "has_sufficient_balance w amt = (amt \<le> balance w)
   \<and> (0 \<le> balance w \<and> amt \<le> 0 \<longrightarrow>
        has_sufficient_balance w amt
        \<and> add_funds w amt descr ttype d = (False, w, d)
        \<and> deduct_funds w amt descr d = (False, w, d))"
  by (simp add: has_sufficient_balance_def add_funds_def deduct_funds_def)

theorem has_sufficient_balance_spec_witness:
  "has_sufficient_balance ex_wallet 0
   \<and> has_sufficient_balance ex_wallet (- 500)
   \<and> \<not> has_sufficient_balance ex_wallet 10001
   \<and> add_funds ex_wallet (- 500) ''x'' Credit empty_db = (False, ex_wallet, empty_db)
   \<and> deduct_funds ex_wallet (- 500) ''x'' empty_db = (False, ex_wallet, empty_db)"
  using has_sufficient_balance_spec[where w = ex_wallet and amt = "- 500"
      and descr = "''x''" and ttype = Credit and d = empty_db]
  by (simp add: ex_wallet_def has_sufficient_balance_def)

section \<open>Payment lifecycle\<close>

lemma Payment_objects_create_Inr:
  "Payment_objects_create d n u ty a m se de me = Inr (p, d1) \<Longrightarrow>
     payments d1 = (payments d)(n \<mapsto> p) \<and> payments d n = None \<and> status p = Pending
     \<and> amount p = a \<and> payment_method p = m"
  by (auto simp: Payment_objects_create_def Let_def split: option.splits)

lemma create_tutor_subscription_payments:
  "payments (snd (create_tutor_subscription d pid p ts tr)) = payments d"
  by (simp add: create_tutor_subscription_def Let_def split: option.splits json.splits)








section \<open>Payment rows across requests\<close>

lemma process_stripe_payment_keeps:
  "payments d pid \<noteq> None \<Longrightarrow>
     payments (db_of (process_stripe_payment d n p stripe)) pid \<noteq> None"
  by (simp add: process_stripe_payment_def db_of_def save_payment_def
      split: stripe_result.splits)

lemma process_wallet_payment_keeps:
  "payments d pid \<noteq> None \<Longrightarrow>
     payments (db_of (process_wallet_payment d u n p now)) pid \<noteq> None"
  by (simp add: process_wallet_payment_def db_of_def save_payment_def deduct_funds_def
      confirm_session_def Let_def split: option.splits)

lemma process_mobile_money_payment_keeps:
  "payments d pid \<noteq> None \<Longrightarrow>
     payments (db_of (process_mobile_money_payment d n p ph)) pid \<noteq> None"
  by (simp add: process_mobile_money_payment_def db_of_def save_payment_def Let_def)

lemma pay_for_session_post_keeps:
  assumes "payments d pid \<noteq> None"
  shows "payments (db_of (pay_for_session_post d u sid m ph n stripe now)) pid \<noteq> None"
proof (cases "sessions d sid")
  case None
  then show ?thesis using assms by (simp add: pay_for_session_post_def db_of_def)
next
  case (Some s)
  show ?thesis
  proof (cases "Payment_objects_create d n u Session (total_amount s) m (Some sid)
                  (''Payment for session: '' @ title s) None")
    case (Inl e)
    then show ?thesis using Some assms by (simp add: pay_for_session_post_def db_of_def)
  next
    case (Inr r)
    obtain p d1 where r: "r = (p, d1)" by (cases r)
    have "payments d1 = (payments d)(n \<mapsto> p)"
      using Payment_objects_create_Inr Inr r by blast
    then have k: "payments d1 pid \<noteq> None" using assms by simp
    show ?thesis
      using Some Inr r k process_stripe_payment_keeps[OF k] process_wallet_payment_keeps[OF k]
        process_mobile_money_payment_keeps[OF k]
      by (simp add: pay_for_session_post_def) (simp add: db_of_def)
  qed
qed

lemma subscription_post_keeps:
  assumes "payments d pid \<noteq> None"
  shows "payments (db_of (subscription_post d u tu pl m n stripe)) pid \<noteq> None"
proof -
  have *: "payments (db_of (subscription_charge d1 n p m stripe)) pid \<noteq> None"
    if "Payment_objects_create d n u ty a m None de me = Inr (p, d1)" for p d1 ty a de me
  proof -
    have "payments d1 = (payments d)(n \<mapsto> p)" and "payments d n = None"
      using Payment_objects_create_Inr[OF that] by simp_all
    then show ?thesis using assms
      by (auto simp: subscription_charge_def db_of_def delete_payment_def
          split: stripe_result.splits)
  qed
  show ?thesis
    using assms *
    by (auto simp: subscription_post_def db_of_def split: option.splits sum.splits)
qed

lemma wallet_post_keeps:
  assumes "payments d pid \<noteq> None"
  shows "payments (db_of (wallet_post d u ac a m n stripe)) pid \<noteq> None"
proof -
  have *: "payments (db_of (wallet_charge d1 n p stripe)) pid \<noteq> None"
    if "Payment_objects_create d n u ty a m None de me = Inr (p, d1)" for p d1 ty de me
  proof -
    have "payments d1 = (payments d)(n \<mapsto> p)" and "payments d n = None"
      using Payment_objects_create_Inr[OF that] by simp_all
    then show ?thesis using assms
      by (auto simp: wallet_charge_def db_of_def delete_payment_def
          split: stripe_result.splits)
  qed
  show ?thesis
    using assms *
    by (auto simp: wallet_post_def db_of_def split: option.splits sum.splits)
qed

lemma request_refund_payments:
  "payments (db_of (request_refund d u n rsn det a)) = payments d"
  by (simp add: request_refund_def db_of_def Let_def split: option.splits)

lemma handle_payment_success_keeps:
  "payments d pid \<noteq> None \<Longrightarrow>
     payments (snd (handle_payment_success d intent t s r)) pid \<noteq> None"
  by (simp add: handle_payment_success_def Let_def save_payment_def confirm_session_def
      create_tutor_subscription_payments wallet_get_or_create_def add_funds_def
      split: option.splits prod.splits)

lemma handle_payment_failure_keeps:
  "payments d pid \<noteq> None \<Longrightarrow> payments (snd (handle_payment_failure d intent)) pid \<noteq> None"
  by (simp add: handle_payment_failure_def save_payment_def split: option.splits)

lemma stripe_webhook_post_keeps:
  assumes "payments d pid \<noteq> None"
  shows "payments (db_of (stripe_webhook_post d ev t s r)) pid \<noteq> None"
proof (cases ev)
  case None
  then show ?thesis using assms by (simp add: stripe_webhook_post_def db_of_def)
next
  case (Some a)
  obtain et intent where a: "a = (et, intent)" by (cases a)
  show ?thesis
    using assms Some a handle_payment_success_keeps[OF assms, of intent t s r]
      handle_payment_failure_keeps[OF assms, of intent]
    by (cases "handle_payment_success d intent t s r"; cases "handle_payment_failure d intent")
       (auto simp: stripe_webhook_post_def db_of_def split: option.splits)
qed

text \<open>
  Claim C4, as amended. A payment that exists when a request of the payments
  application arrives still exists when the request is done: no view deletes a payment
  that an earlier request created. A gateway error during charge-intent creation is
  handled in two ways: \<open>process_stripe_payment\<close> (session payments) keeps the row and
  marks it \<open>Failed\<close>, while the subscription and the wallet top-up views delete the row
  that the same request has just created.
\<close>

theorem existing_payments_survive:
  "(payments d pid \<noteq> None \<longrightarrow> payments (db_of (handle d r)) pid \<noteq> None)
   \<and> map_option status (payments (db_of (process_stripe_payment d' n p StripeError)) n)
       = Some Failed
   \<and> payments (db_of (subscription_charge d' n p ''stripe'' StripeError)) n = None
   \<and> (payment_method p = ''stripe'' \<longrightarrow>
        payments (db_of (wallet_charge d' n p StripeError)) n = None)"
proof -
  have "payments (db_of (handle d r)) pid \<noteq> None" if "payments d pid \<noteq> None"
    using that
    by (cases r)
       (simp_all add: pay_for_session_post_keeps subscription_post_keeps wallet_post_keeps
          request_refund_payments stripe_webhook_post_keeps)
  then show ?thesis
    by (simp add: process_stripe_payment_def subscription_charge_def wallet_charge_def
        db_of_def save_payment_def delete_payment_def)
qed

theorem existing_payments_survive_witness:
  "payments ex_basic_db 1 \<noteq> None
   \<and> payments (db_of (handle ex_basic_db
        (Subscribe 9 True (Some ''basic'') ''stripe'' 2 StripeError))) 1 \<noteq> None
   \<and> payments (db_of (handle ex_basic_db
        (Subscribe 9 True (Some ''basic'') ''stripe'' 2 StripeError))) 2 = None
   \<and> payments (db_of (wallet_charge ex_basic_db 1 ex_basic StripeError)) 1 = None"
  using existing_payments_survive[where d = ex_basic_db and pid = 1
      and r = "Subscribe 9 True (Some ''basic'') ''stripe'' 2 StripeError"
      and d' = ex_basic_db and n = 1 and p = ex_basic]
  by (simp add: ex_basic_db_def ex_basic_def empty_db_def subscription_post_def
      plan_prices_def plan_title_def Payment_objects_create_def subscription_charge_def
      delete_payment_def db_of_def Let_def)

text \<open>The claim as it stands fails: the subscription view creates the payment row
  \<open>ex_basic\<close> under id 1, the gateway refuses the charge intent, and the row is gone.\<close>

theorem subscription_payment_deleted_on_gateway_error:
  "Payment_objects_create empty_db 1 9 Subscription 5000 ''stripe'' None
      ''Tutor subscription - Basic plan''
      (Some [''plan'' \<mapsto> JStr ''basic'', ''months'' \<mapsto> JInt 1]) = Inr (ex_basic, ex_basic_db)
   \<and> payments ex_basic_db 1 = Some ex_basic
   \<and> subscription_post empty_db 9 True (Some ''basic'') ''stripe'' 1 StripeError
       = subscription_charge ex_basic_db 1 ex_basic ''stripe'' StripeError
   \<and> fst (subscription_charge ex_basic_db 1 ex_basic ''stripe'' StripeError) = JsonResponse 400
   \<and> payments (db_of (subscription_charge ex_basic_db 1 ex_basic ''stripe'' StripeError)) 1
       = None"
  by (simp add: Payment_objects_create_def ex_basic_def ex_basic_db_def empty_db_def
      subscription_post_def plan_prices_def plan_title_def subscription_charge_def
      delete_payment_def db_of_def Let_def)

text \<open>
  Claim C5, as amended. A wallet top-up request with an amount that is not positive
  creates no payment: the view redirects to the wallet page, with no message, and the
  database is as it was. Every row that \<open>Payment_objects_create\<close> inserts has status
  \<open>Pending\<close> and the amount it was given. The session payment view checks no amount:
  for an existing session and a fresh id it stores a payment whose amount is the
  session's total amount, whatever its sign.
\<close>

theorem payment_creation_amounts:
  "(amt \<le> 0 \<longrightarrow> wallet_post d u action amt meth new_id stripe
                  = (Redirect ''payments:wallet'', [], d))
   \<and> (Payment_objects_create d new_id u ptype a meth sess descr meta = Inr (p, d') \<longrightarrow>
        status p = Pending \<and> amount p = a \<and> payments d' new_id = Some p)
   \<and> (sessions d sid = Some s \<and> payments d new_id = None \<longrightarrow>
        map_option amount (payments (db_of
          (pay_for_session_post d u sid meth phone new_id stripe now)) new_id)
        = Some (total_amount s))"
proof -
  have A: "amt \<le> 0 \<longrightarrow> wallet_post d u action amt meth new_id stripe
                  = (Redirect ''payments:wallet'', [], d)"
    by (simp add: wallet_post_def)
  have B: "Payment_objects_create d new_id u ptype a meth sess descr meta = Inr (p, d') \<longrightarrow>
        status p = Pending \<and> amount p = a \<and> payments d' new_id = Some p"
    using Payment_objects_create_Inr[of d new_id u ptype a meth sess descr meta p d']
    by simp
  have C: "map_option amount (payments (db_of
          (pay_for_session_post d u sid meth phone new_id stripe now)) new_id)
        = Some (total_amount s)"
    if "sessions d sid = Some s" and "payments d new_id = None"
    using that
    by (simp add: pay_for_session_post_def Payment_objects_create_def Let_def
        process_stripe_payment_def process_wallet_payment_def process_mobile_money_payment_def
        save_payment_def db_of_def deduct_funds_def confirm_session_def
        split: stripe_result.splits option.splits)
  show ?thesis using A B C by blast
qed

theorem payment_creation_amounts_witness:
  "wallet_post empty_db 9 (Some ''topup'') 0 ''stripe'' 1 (Stripe_intent ''pi_1'')
     = (Redirect ''payments:wallet'', [], empty_db)
   \<and> Payment_objects_create empty_db 1 9 Subscription 5000 ''stripe'' None
        ''Tutor subscription - Basic plan''
        (Some [''plan'' \<mapsto> JStr ''basic'', ''months'' \<mapsto> JInt 1]) = Inr (ex_basic, ex_basic_db)
   \<and> status ex_basic = Pending
   \<and> map_option amount (payments (db_of
        (pay_for_session_post ex_free_session_db 7 3 ''wallet'' None 1 StripeError 100)) 1)
      = Some 0"
  using payment_creation_amounts[where amt = 0 and d = empty_db and u = 9
      and action = "Some ''topup''" and meth = "''stripe''" and new_id = 1
      and stripe = "Stripe_intent ''pi_1''" and ptype = Subscription and a = 5000
      and sess = None and descr = "''Tutor subscription - Basic plan''"
      and meta = "Some [''plan'' \<mapsto> JStr ''basic'', ''months'' \<mapsto> JInt 1]"
      and p = ex_basic and d' = ex_basic_db]
    payment_creation_amounts[where d = ex_free_session_db and sid = 3
      and s = ex_free_session and new_id = 1 and u = 7 and meth = "''wallet''"
      and phone = None and stripe = StripeError and now = 100]
  by (simp add: ex_free_session_db_def ex_free_session_def empty_db_def ex_basic_def
      ex_basic_db_def Payment_objects_create_def Let_def)

text \<open>The claim as it stands fails: a session payment of amount zero is created and
  stays stored, in status \<open>Pending\<close>.\<close>

theorem zero_amount_session_payment_persisted:
  "total_amount ex_free_session = 0
   \<and> pay_for_session_post ex_free_session_db 7 3 ''stripe'' None 1 (Stripe_intent ''pi_1'') 100
      = (JsonResponse 200, [],
         ex_free_session_db\<lparr>payments := [1 \<mapsto>
           \<lparr>user = 7, payment_type = Session, amount = 0, payment_method = ''stripe'',
            status = Pending, session = Some 3, stripe_payment_intent_id = ''pi_1'',
            gateway_response = None, description = ''Payment for session: Algebra'',
            metadata = None, completed_at = None\<rparr>]\<rparr>)"
  by (simp add: pay_for_session_post_def ex_free_session_db_def ex_free_session_def
      empty_db_def Payment_objects_create_def process_stripe_payment_def save_payment_def
      Let_def)

section \<open>Refund workflow\<close>

text \<open>
  Claim C3, as amended. For a completed payment of the requesting user that has no
  refund yet, a request with the amount left blank creates a refund, in status
  \<open>Requested\<close>, whose amount is the full amount of the payment. A request with an
  explicit amount other than zero creates a refund of exactly that amount: the amount is
  not compared with the amount of the payment, so an amount above it is accepted too.
\<close>

theorem request_refund_amount:
  assumes "payments d pid = Some p" and "user p = u" and "status p = Completed"
    and "refunds d pid = None"
  shows "request_refund d u pid rsn detail None =
           (Redirect ''payments:payment_list'', [''Refund request submitted successfully.''],
            d\<lparr>refunds := (refunds d)(pid \<mapsto> \<lparr>reason = rsn, reason_detail = detail,
                 refund_amount = amount p, refund_status = Requested\<rparr>)\<rparr>)
       \<and> (x \<noteq> 0 \<longrightarrow> request_refund d u pid rsn detail (Some x) =
           (Redirect ''payments:payment_list'', [''Refund request submitted successfully.''],
            d\<lparr>refunds := (refunds d)(pid \<mapsto> \<lparr>reason = rsn, reason_detail = detail,
                 refund_amount = x, refund_status = Requested\<rparr>)\<rparr>))"
  using assms by (simp add: request_refund_def)

theorem request_refund_amount_witness:
  "payments ex_completed_db 1 = Some ex_completed
   \<and> status ex_completed = Completed
   \<and> refunds (db_of (request_refund ex_completed_db 7 1 ''other'' ''late'' None)) 1
       = Some ex_refund
   \<and> map_option refund_amount
       (refunds (db_of (request_refund ex_completed_db 7 1 ''other'' ''late'' (Some 2500))) 1)
       = Some 2500"
  using request_refund_amount[where d = ex_completed_db and pid = 1 and p = ex_completed
      and u = 7 and rsn = "''other''" and detail = "''late''" and x = 2500]
  by (simp add: ex_completed_db_def ex_completed_def ex_refund_def empty_db_def db_of_def)

text \<open>The claim as it stands fails: a refund of 150.00 is requested against the
  completed payment of 100.00, and it is created.\<close>

theorem request_refund_above_payment_accepted:
  "amount ex_completed = 10000
   \<and> payments ex_completed_db 1 = Some ex_completed
   \<and> request_refund ex_completed_db 7 1 ''other'' ''late'' (Some 15000) =
       (Redirect ''payments:payment_list'', [''Refund request submitted successfully.''],
        ex_completed_db\<lparr>refunds := [1 \<mapsto> \<lparr>reason = ''other'', reason_detail = ''late'',
           refund_amount = 15000, refund_status = Requested\<rparr>]\<rparr>)"
  by (simp add: request_refund_def ex_completed_db_def ex_completed_def empty_db_def)



section \<open>Subscription activation\<close>



end
